theory Spec2Isabelle
  imports Complex_Main
begin

section \<open>JavaScript values and objects\<close>

text \<open>
  The component in \<^verbatim>\<open>src/assets/html5-qrcode.jsx\<close> only moves prop values around: it
  tests one of them for truthiness, compares one with \<^verbatim>\<open>true\<close> by \<^verbatim>\<open>===\<close>, and hands the
  others on. Values are therefore a small tagged union. Functions are known by
  an identity only (they are never called by the component), and objects nested inside a
  prop (a \<^verbatim>\<open>qrbox\<close> of the form \<^verbatim>\<open>{width, height}\<close>) are carried as data.
\<close>

datatype jsval =
    JUndefined
  | JNull
  | JBool bool
  | JNum rat
  | JNaN
  | JStr string
  | JFun nat
  | JObj "(string \<times> jsval) list"

text \<open>
  An object whose properties the component reads or builds (the props, the scanner
  configuration, the attributes of the rendered element) is a finite map from property
  names to values. A property that is present with the value \<^verbatim>\<open>undefined\<close> is
  \<open>Some JUndefined\<close>; a property that is absent is \<open>None\<close>.
\<close>

type_synonym jsobject = "string \<rightharpoonup> jsval"

text \<open>JavaScript's ToBoolean, as used by the \<^verbatim>\<open>!\<close> operator.\<close>

fun truthy :: "jsval \<Rightarrow> bool" where
  "truthy JUndefined = False"
| "truthy JNull = False"
| "truthy (JBool b) = b"
| "truthy (JNum n) = (n \<noteq> 0)"
| "truthy JNaN = False"
| "truthy (JStr s) = (s \<noteq> [])"
| "truthy (JFun f) = True"
| "truthy (JObj ps) = True"

section \<open>The component function\<close>

definition qrcodeRegionId :: string where
  "qrcodeRegionId = ''html5qr-code-full-region''"

text \<open>
  The destructuring pattern of lines 7 to 16: seven named bindings, each with the default
  \<^verbatim>\<open>undefined\<close>, and the rest object. A binding \<^verbatim>\<open>k = d\<close> takes the default when the
  property is absent or is \<^verbatim>\<open>undefined\<close>.
\<close>

record vars =
  fps :: jsval
  qrbox :: jsval
  aspectRatio :: jsval
  disableFlip :: jsval
  verbose :: jsval
  qrCodeSuccessCallback :: jsval
  qrCodeErrorCallback :: jsval
  rest :: jsobject

definition named_props :: "string list" where
  "named_props = [''fps'', ''qrbox'', ''aspectRatio'', ''disableFlip'', ''verbose'',
     ''qrCodeSuccessCallback'', ''qrCodeErrorCallback'']"

definition pick :: "jsobject \<Rightarrow> string \<Rightarrow> jsval \<Rightarrow> jsval" where
  "pick props k d =
     (case props k of None \<Rightarrow> d | Some v \<Rightarrow> if v = JUndefined then d else v)"

definition destructure :: "jsobject \<Rightarrow> vars" where
  "destructure props =
     \<lparr> fps = pick props ''fps'' JUndefined,
       qrbox = pick props ''qrbox'' JUndefined,
       aspectRatio = pick props ''aspectRatio'' JUndefined,
       disableFlip = pick props ''disableFlip'' JUndefined,
       verbose = pick props ''verbose'' JUndefined,
       qrCodeSuccessCallback = pick props ''qrCodeSuccessCallback'' JUndefined,
       qrCodeErrorCallback = pick props ''qrCodeErrorCallback'' JUndefined,
       rest = props |` (- set named_props) \<rparr>"

subsection \<open>The outside world\<close>

text \<open>
  The scanner library and the console are collaborators outside the repository. Every call
  the component makes on them is recorded, oldest first. \<open>Construct h r c v\<close> is
  \<^verbatim>\<open>new Html5QrcodeScanner(r, c, v)\<close> yielding the instance \<open>h\<close>; \<open>Render h s e\<close> is
  \<^verbatim>\<open>h.render(s, e)\<close>; \<open>Clear h\<close> is \<^verbatim>\<open>h.clear()\<close>; \<open>ConsoleError m e\<close> is
  \<^verbatim>\<open>console.error(m, e)\<close>. A call is recorded when it is made, whether it returns or
  throws. What the collaborators do is a parameter of the world: \<open>construct_throws w h\<close>
  is what the constructor call that would yield the instance \<open>h\<close> throws (\<open>None\<close> when
  it returns the instance), \<open>render_throws w h\<close> is what \<^verbatim>\<open>h.render\<close> throws (\<open>None\<close>
  when it returns), and \<open>clear_promise w h\<close> is how the promise returned by \<^verbatim>\<open>h.clear()\<close>
  ends.
\<close>

datatype event =
    is_Construct: Construct nat string jsobject bool
  | is_Render: Render nat jsval jsval
  | is_Clear: Clear nat
  | is_ConsoleError: ConsoleError string jsval

datatype promise = Fulfilled jsval | Rejected jsval | Pending

record world =
  trace :: "event list"
  next_handle :: nat
  construct_throws :: "nat \<Rightarrow> jsval option"
  render_throws :: "nat \<Rightarrow> jsval option"
  clear_promise :: "nat \<Rightarrow> promise"
  unhandled :: "jsval list"

definition emit :: "event \<Rightarrow> world \<Rightarrow> world" where
  "emit e w = w\<lparr>trace := trace w @ [e]\<rparr>"

text \<open>
  \<^verbatim>\<open>p.catch(h)\<close>: the handler runs only when \<open>p\<close> is rejected, and the promise that
  \<^verbatim>\<open>catch\<close> returns is fulfilled with what the handler returns, or rejected with what it
  throws. The handler runs on a later turn of the event loop; the model runs it at once,
  which keeps the order of the recorded calls.
\<close>

definition promise_catch ::
  "promise \<Rightarrow> (jsval \<Rightarrow> world \<Rightarrow> (jsval + jsval) \<times> world) \<Rightarrow> world \<Rightarrow> promise \<times> world" where
  "promise_catch p onRejected w =
     (case p of
        Fulfilled v \<Rightarrow> (Fulfilled v, w)
      | Pending \<Rightarrow> (Pending, w)
      | Rejected e \<Rightarrow>
          (case onRejected e w of
             (Inl t, w') \<Rightarrow> (Rejected t, w')
           | (Inr v, w') \<Rightarrow> (Fulfilled v, w')))"

text \<open>A promise that is dropped while rejected is reported by the runtime as unhandled.\<close>

definition discard :: "promise \<times> world \<Rightarrow> world" where
  "discard pw =
     (case pw of
        (Rejected e, w) \<Rightarrow> w\<lparr>unhandled := unhandled w @ [e]\<rparr>
      | (_, w) \<Rightarrow> w)"

subsection \<open>The effect and its cleanup\<close>

text \<open>Lines 18 to 23: the configuration object literal.\<close>

definition scan_config :: "vars \<Rightarrow> jsobject" where
  "scan_config v =
     [''fps'' \<mapsto> fps v, ''qrbox'' \<mapsto> qrbox v,
      ''aspectRatio'' \<mapsto> aspectRatio v, ''disableFlip'' \<mapsto> disableFlip v]"

text \<open>
  Lines 17 to 41: the function handed to \<^verbatim>\<open>useEffect\<close>, closed over the destructured
  props. It throws (\<open>Inl\<close>) or returns its cleanup function (\<open>Inr\<close>); the cleanup
  closes over the scanner instance alone, so it is represented by that instance. Nothing
  in lines 28 to 33 catches an exception: what the constructor or \<^verbatim>\<open>render\<close> throws leaves
  the effect at once, before line 36 is reached, so that no cleanup function is returned.
\<close>

definition effect :: "vars \<Rightarrow> world \<Rightarrow> (jsval + nat) \<times> world" where
  "effect v w =
     (let config = scan_config v in
      if \<not> truthy (qrCodeSuccessCallback v)
      then (Inl (JStr ''qrCodeSuccessCallback is required callback.''), w)
      else
        let html5QrcodeScanner = next_handle w;
            w1 = emit (Construct html5QrcodeScanner qrcodeRegionId config
                         (verbose v = JBool True)) w
        in case construct_throws w html5QrcodeScanner of
             Some thrown \<Rightarrow> (Inl thrown, w1)
           | None \<Rightarrow>
               let w2 = emit (Render html5QrcodeScanner (qrCodeSuccessCallback v)
                               (qrCodeErrorCallback v))
                          (w1\<lparr>next_handle := Suc html5QrcodeScanner\<rparr>)
               in case render_throws w html5QrcodeScanner of
                    Some thrown \<Rightarrow> (Inl thrown, w2)
                  | None \<Rightarrow> (Inr html5QrcodeScanner, w2))"

text \<open>Lines 37 to 39: the rejection handler, which logs and returns \<^verbatim>\<open>undefined\<close>.\<close>

definition on_clear_error :: "jsval \<Rightarrow> world \<Rightarrow> (jsval + jsval) \<times> world" where
  "on_clear_error error w =
     (Inr JUndefined, emit (ConsoleError ''Failed to clear html5QrcodeScanner. '' error) w)"

text \<open>Lines 36 to 40: the cleanup function. It returns \<^verbatim>\<open>undefined\<close> (\<open>Inr ()\<close>).\<close>

definition cleanup :: "nat \<Rightarrow> world \<Rightarrow> (jsval + unit) \<times> world" where
  "cleanup html5QrcodeScanner w =
     (let w1 = emit (Clear html5QrcodeScanner) w;
          p = clear_promise w1 html5QrcodeScanner
      in (Inr (), discard (promise_catch p on_clear_error w1)))"

subsection \<open>What the component returns\<close>

record element =
  tag :: string
  attrs :: jsobject

text \<open>
  One call of the component function yields the element of line 43 and registers one
  effect with its dependency list (line 41: the empty list). In the element the spread of
  \<open>rest\<close> comes after \<^verbatim>\<open>id\<close>, so a property of \<open>rest\<close> wins over it.
\<close>

record rendered =
  elem :: element
  effect_env :: vars
  effect_deps :: "jsval list option"

definition Html5QrcodePlugin :: "jsobject \<Rightarrow> rendered" where
  "Html5QrcodePlugin props =
     (let v = destructure props in
      \<lparr> elem = \<lparr> tag = ''div'', attrs = [''id'' \<mapsto> JStr qrcodeRegionId] ++ rest v \<rparr>,
        effect_env = v,
        effect_deps = Some [] \<rparr>)"

section \<open>The host: one component instance under React\<close>

text \<open>
  The host keeps, for one instance: the element it has committed to the page (\<open>None\<close>
  when the instance is not mounted), the cleanup the last run of the effect returned, the
  dependency list of that run, and the errors that escaped a routine of the component.
  An effect runs after the first commit; after a later commit it runs again only when its
  dependency list is missing or differs from the previous one in some position, the old
  cleanup running first; on removal the cleanup runs. This is the behaviour of
  \<^verbatim>\<open>useEffect\<close> in React, which the repository imports and does not contain; the
  repetition of effects that React's strict mode adds during development is left out.
\<close>

record host =
  world :: world
  committed :: "element option"
  destroy :: "nat option"
  prev_deps :: "jsval list option"
  uncaught :: "jsval list"

fun deps_same :: "jsval list option \<Rightarrow> jsval list option \<Rightarrow> bool" where
  "deps_same (Some prev) (Some nxt) = list_all (\<lambda>(a, b). a = b) (zip nxt prev)"
| "deps_same _ _ = False"

definition run_effect :: "rendered \<Rightarrow> host \<Rightarrow> host" where
  "run_effect r s =
     (case effect (effect_env r) (world s) of
        (Inl e, w) \<Rightarrow>
          s\<lparr>world := w, destroy := None, prev_deps := effect_deps r,
            uncaught := uncaught s @ [e]\<rparr>
      | (Inr h, w) \<Rightarrow>
          s\<lparr>world := w, destroy := Some h, prev_deps := effect_deps r\<rparr>)"

definition run_destroy :: "host \<Rightarrow> host" where
  "run_destroy s =
     (case destroy s of
        None \<Rightarrow> s
      | Some h \<Rightarrow>
          (case cleanup h (world s) of
             (Inl e, w) \<Rightarrow> s\<lparr>world := w, destroy := None, uncaught := uncaught s @ [e]\<rparr>
           | (Inr u, w) \<Rightarrow> s\<lparr>world := w, destroy := None\<rparr>))"

definition mount :: "jsobject \<Rightarrow> host \<Rightarrow> host" where
  "mount props s =
     (let r = Html5QrcodePlugin props
      in run_effect r (s\<lparr>committed := Some (elem r)\<rparr>))"

definition update :: "jsobject \<Rightarrow> host \<Rightarrow> host" where
  "update props s =
     (let r = Html5QrcodePlugin props;
          s1 = s\<lparr>committed := Some (elem r)\<rparr>
      in if deps_same (prev_deps s) (effect_deps r) then s1
         else run_effect r (run_destroy s1))"

definition unmount :: "host \<Rightarrow> host" where
  "unmount s = (run_destroy s)\<lparr>committed := None, prev_deps := None\<rparr>"

datatype lifecycle = Mount jsobject | Update jsobject | Unmount

text \<open>The host mounts only what is not mounted, and updates or removes only what is.\<close>

fun step :: "host \<Rightarrow> lifecycle \<Rightarrow> host" where
  "step s (Mount props) = (if committed s = None then mount props s else s)"
| "step s (Update props) = (if committed s = None then s else update props s)"
| "step s Unmount = (if committed s = None then s else unmount s)"

definition run :: "host \<Rightarrow> lifecycle list \<Rightarrow> host" where
  "run s evs = foldl step s evs"

text \<open>
  A host that has mounted nothing yet: \<open>host_over\<close> over any behaviour of the scanner
  library, \<open>fresh_host\<close> over a library whose constructor and \<^verbatim>\<open>render\<close> return normally.
\<close>

definition host_over ::
  "(nat \<Rightarrow> jsval option) \<Rightarrow> (nat \<Rightarrow> jsval option) \<Rightarrow> (nat \<Rightarrow> promise) \<Rightarrow> host" where
  "host_over ct rt cp =
     \<lparr> world = \<lparr> trace = [], next_handle = 0, construct_throws = ct, render_throws = rt,
                 clear_promise = cp, unhandled = [] \<rparr>,
       committed = None, destroy = None, prev_deps = None, uncaught = [] \<rparr>"

definition fresh_host :: "(nat \<Rightarrow> promise) \<Rightarrow> host" where
  "fresh_host cp =
     \<lparr> world = \<lparr> trace = [], next_handle = 0, construct_throws = (\<lambda>h. None),
                 render_throws = (\<lambda>h. None), clear_promise = cp, unhandled = [] \<rparr>,
       committed = None, destroy = None, prev_deps = None, uncaught = [] \<rparr>"

text \<open>The calls recorded between two states of the host.\<close>

definition since :: "host \<Rightarrow> host \<Rightarrow> event list" where
  "since s s' = drop (length (trace (world s))) (trace (world s'))"

section \<open>Facts about the routines\<close>

lemma pick_undefined: "pick p k JUndefined = (case p k of None \<Rightarrow> JUndefined | Some v \<Rightarrow> v)"
  by (simp add: pick_def split: option.split)

lemma effect_ok:
  "truthy (qrCodeSuccessCallback v) \<Longrightarrow>
   construct_throws w (next_handle w) = None \<Longrightarrow>
   render_throws w (next_handle w) = None \<Longrightarrow>
   effect v w =
     (Inr (next_handle w),
      w\<lparr>trace := trace w @
           [Construct (next_handle w) qrcodeRegionId (scan_config v) (verbose v = JBool True),
            Render (next_handle w) (qrCodeSuccessCallback v) (qrCodeErrorCallback v)],
        next_handle := Suc (next_handle w)\<rparr>)"
  by (simp add: effect_def emit_def Let_def)

lemma effect_fail:
  "\<not> truthy (qrCodeSuccessCallback v) \<Longrightarrow>
   effect v w = (Inl (JStr ''qrCodeSuccessCallback is required callback.''), w)"
  by (simp add: effect_def)

lemma cleanup_eq:
  "cleanup h w =
     (Inr (),
      w\<lparr>trace := trace w @ Clear h #
          (case clear_promise w h of
             Rejected e \<Rightarrow> [ConsoleError ''Failed to clear html5QrcodeScanner. '' e]
           | _ \<Rightarrow> [])\<rparr>)"
  by (simp add: cleanup_def emit_def promise_catch_def on_clear_error_def discard_def Let_def
      split: promise.split)

lemma plugin_deps: "effect_deps (Html5QrcodePlugin p) = Some []"
  by (simp add: Html5QrcodePlugin_def Let_def)

lemma plugin_env: "effect_env (Html5QrcodePlugin p) = destructure p"
  by (simp add: Html5QrcodePlugin_def Let_def)

lemma effect_construct_throws:
  "truthy (qrCodeSuccessCallback v) \<Longrightarrow>
   construct_throws w (next_handle w) = Some x \<Longrightarrow>
   effect v w =
     (Inl x,
      w\<lparr>trace := trace w @
           [Construct (next_handle w) qrcodeRegionId (scan_config v)
              (verbose v = JBool True)]\<rparr>)"
  by (simp add: effect_def emit_def Let_def)

lemma effect_render_throws:
  "truthy (qrCodeSuccessCallback v) \<Longrightarrow>
   construct_throws w (next_handle w) = None \<Longrightarrow>
   render_throws w (next_handle w) = Some x \<Longrightarrow>
   effect v w =
     (Inl x,
      w\<lparr>trace := trace w @
           [Construct (next_handle w) qrcodeRegionId (scan_config v) (verbose v = JBool True),
            Render (next_handle w) (qrCodeSuccessCallback v) (qrCodeErrorCallback v)],
        next_handle := Suc (next_handle w)\<rparr>)"
  by (simp add: effect_def emit_def Let_def)

lemma effect_trace:
  "trace (snd (effect v w)) =
     trace w @
     (if truthy (qrCodeSuccessCallback v)
      then Construct (next_handle w) qrcodeRegionId (scan_config v) (verbose v = JBool True) #
           (case construct_throws w (next_handle w) of
              None \<Rightarrow>
                [Render (next_handle w) (qrCodeSuccessCallback v) (qrCodeErrorCallback v)]
            | Some x \<Rightarrow> [])
      else [])"
  by (simp add: effect_def emit_def Let_def split: option.split)

lemma mount_world: "world (mount p s) = snd (effect (destructure p) (world s))"
  by (simp add: mount_def run_effect_def plugin_env Let_def split: prod.split sum.split)

lemma mount_ok:
  "truthy (qrCodeSuccessCallback (destructure p)) \<Longrightarrow>
   construct_throws (world s) (next_handle (world s)) = None \<Longrightarrow>
   render_throws (world s) (next_handle (world s)) = None \<Longrightarrow>
   mount p s =
     s\<lparr>world := snd (effect (destructure p) (world s)),
       committed := Some (elem (Html5QrcodePlugin p)),
       destroy := Some (next_handle (world s)),
       prev_deps := Some []\<rparr>"
  by (simp add: mount_def run_effect_def plugin_deps plugin_env effect_ok Let_def)

lemma mount_fail:
  "\<not> truthy (qrCodeSuccessCallback (destructure p)) \<Longrightarrow>
   mount p s =
     s\<lparr>committed := Some (elem (Html5QrcodePlugin p)),
       destroy := None,
       prev_deps := Some [],
       uncaught := uncaught s @ [JStr ''qrCodeSuccessCallback is required callback.'']\<rparr>"
  by (simp add: mount_def run_effect_def plugin_deps plugin_env effect_fail Let_def)

lemma update_skips:
  "prev_deps s = Some [] \<Longrightarrow> update q s = s\<lparr>committed := Some (elem (Html5QrcodePlugin q))\<rparr>"
  by (simp add: update_def plugin_deps Let_def)

lemma run_updates:
  "prev_deps s = Some [] \<Longrightarrow> committed s \<noteq> None \<Longrightarrow>
   world (run s (map Update qs)) = world s \<and>
   destroy (run s (map Update qs)) = destroy s \<and>
   prev_deps (run s (map Update qs)) = Some [] \<and>
   uncaught (run s (map Update qs)) = uncaught s \<and>
   committed (run s (map Update qs)) \<noteq> None"
proof (induction qs arbitrary: s)
  case Nil
  then show ?case by (simp add: run_def)
next
  case (Cons q qs)
  let ?s1 = "s\<lparr>committed := Some (elem (Html5QrcodePlugin q))\<rparr>"
  have st: "step s (Update q) = ?s1"
    using Cons.prems by (simp add: update_skips)
  have "prev_deps ?s1 = Some []" and "committed ?s1 \<noteq> None"
    using Cons.prems by simp_all
  from Cons.IH [OF this] show ?case
    using st by (simp add: run_def)
qed

lemma run_Cons: "run s (x # xs) = run (step s x) xs"
  by (simp add: run_def)

lemma unmount_eq:
  "unmount s =
     (case destroy s of
        None \<Rightarrow> s\<lparr>committed := None, prev_deps := None\<rparr>
      | Some h \<Rightarrow>
          s\<lparr>world := snd (cleanup h (world s)), committed := None, destroy := None,
            prev_deps := None\<rparr>)"
  by (simp add: unmount_def run_destroy_def cleanup_eq split: option.split)

lemma active_ok:
  assumes "committed s = None" and "truthy (qrCodeSuccessCallback (destructure p))"
    and "construct_throws (world s) (next_handle (world s)) = None"
    and "render_throws (world s) (next_handle (world s)) = None"
  shows "world (run s (Mount p # map Update qs)) = snd (effect (destructure p) (world s)) \<and>
         destroy (run s (Mount p # map Update qs)) = Some (next_handle (world s)) \<and>
         prev_deps (run s (Mount p # map Update qs)) = Some [] \<and>
         uncaught (run s (Mount p # map Update qs)) = uncaught s \<and>
         committed (run s (Mount p # map Update qs)) \<noteq> None"
proof -
  have m: "step s (Mount p) = mount p s"
    using assms(1) by simp
  have "prev_deps (mount p s) = Some []" and "committed (mount p s) \<noteq> None"
    using assms(2-4) by (simp_all add: mount_ok)
  from run_updates [OF this, of qs] show ?thesis
    using m assms(2-4) by (simp add: run_Cons mount_ok)
qed

lemma active_fail:
  assumes "committed s = None" and "\<not> truthy (qrCodeSuccessCallback (destructure p))"
  shows "world (run s (Mount p # map Update qs)) = world s \<and>
         destroy (run s (Mount p # map Update qs)) = None \<and>
         prev_deps (run s (Mount p # map Update qs)) = Some [] \<and>
         uncaught (run s (Mount p # map Update qs)) =
           uncaught s @ [JStr ''qrCodeSuccessCallback is required callback.''] \<and>
         committed (run s (Mount p # map Update qs)) \<noteq> None"
proof -
  have m: "step s (Mount p) = mount p s"
    using assms(1) by simp
  have "prev_deps (mount p s) = Some []" and "committed (mount p s) \<noteq> None"
    using assms(2) by (simp_all add: mount_fail)
  from run_updates [OF this, of qs] show ?thesis
    using m assms(2) by (simp add: run_Cons mount_fail)
qed

lemma cb_truthy:
  "p ''qrCodeSuccessCallback'' = Some c \<Longrightarrow> truthy c \<Longrightarrow>
   qrCodeSuccessCallback (destructure p) = c"
  by (auto simp: destructure_def pick_def)

lemma since_self_append:
  "trace (world s') = trace (world s) @ evs \<Longrightarrow> since s s' = evs"
  by (simp add: since_def)

lemma unmount_after:
  "committed (run s evs) \<noteq> None \<Longrightarrow> run s (evs @ [Unmount]) = unmount (run s evs)"
  by (auto simp: run_def)

lemma trace_active:
  assumes "committed s = None"
    and "p ''qrCodeSuccessCallback'' = Some c" and "truthy c"
    and "construct_throws (world s) (next_handle (world s)) = None"
    and "render_throws (world s) (next_handle (world s)) = None"
  shows "trace (world (run s (Mount p # map Update qs))) =
           trace (world s) @
           [Construct (next_handle (world s)) qrcodeRegionId (scan_config (destructure p))
              (verbose (destructure p) = JBool True),
            Render (next_handle (world s)) c (qrCodeErrorCallback (destructure p))]"
    and "clear_promise (world (run s (Mount p # map Update qs))) = clear_promise (world s)"
    and "unhandled (world (run s (Mount p # map Update qs))) = unhandled (world s)"
    and "next_handle (world (run s (Mount p # map Update qs))) = Suc (next_handle (world s))"
    and "destroy (run s (Mount p # map Update qs)) = Some (next_handle (world s))"
    and "uncaught (run s (Mount p # map Update qs)) = uncaught s"
    and "committed (run s (Mount p # map Update qs)) \<noteq> None"
proof -
  have cb: "qrCodeSuccessCallback (destructure p) = c"
    using assms(2,3) by (rule cb_truthy)
  then have t: "truthy (qrCodeSuccessCallback (destructure p))"
    using assms(3) by simp
  note a = active_ok [OF assms(1) t assms(4,5), of qs]
  note e = effect_ok [OF t assms(4,5)]
  show "trace (world (run s (Mount p # map Update qs))) =
           trace (world s) @
           [Construct (next_handle (world s)) qrcodeRegionId (scan_config (destructure p))
              (verbose (destructure p) = JBool True),
            Render (next_handle (world s)) c (qrCodeErrorCallback (destructure p))]"
    using a cb by (simp add: e)
  show "clear_promise (world (run s (Mount p # map Update qs))) = clear_promise (world s)"
    using a by (simp add: e)
  show "unhandled (world (run s (Mount p # map Update qs))) = unhandled (world s)"
    using a by (simp add: e)
  show "next_handle (world (run s (Mount p # map Update qs))) = Suc (next_handle (world s))"
    using a by (simp add: e)
  show "destroy (run s (Mount p # map Update qs)) = Some (next_handle (world s))"
    using a by simp
  show "uncaught (run s (Mount p # map Update qs)) = uncaught s"
    using a by simp
  show "committed (run s (Mount p # map Update qs)) \<noteq> None"
    using a by simp
qed

lemma trace_final:
  assumes "committed s = None"
    and "p ''qrCodeSuccessCallback'' = Some c" and "truthy c"
    and "construct_throws (world s) (next_handle (world s)) = None"
    and "render_throws (world s) (next_handle (world s)) = None"
  shows "trace (world (run s (Mount p # map Update qs @ [Unmount]))) =
           trace (world (run s (Mount p # map Update qs))) @
           Clear (next_handle (world s)) #
           (case clear_promise (world s) (next_handle (world s)) of
              Rejected e \<Rightarrow> [ConsoleError ''Failed to clear html5QrcodeScanner. '' e]
            | _ \<Rightarrow> [])"
    and "unhandled (world (run s (Mount p # map Update qs @ [Unmount]))) = unhandled (world s)"
    and "uncaught (run s (Mount p # map Update qs @ [Unmount])) = uncaught s"
    and "committed (run s (Mount p # map Update qs @ [Unmount])) = None"
    and "destroy (run s (Mount p # map Update qs @ [Unmount])) = None"
proof -
  note a = trace_active [where s=s and p=p and c=c and qs=qs, OF assms]
  have f: "run s (Mount p # map Update qs @ [Unmount]) = unmount (run s (Mount p # map Update qs))"
    using unmount_after [OF a(7)] by simp
  show "trace (world (run s (Mount p # map Update qs @ [Unmount]))) =
           trace (world (run s (Mount p # map Update qs))) @
           Clear (next_handle (world s)) #
           (case clear_promise (world s) (next_handle (world s)) of
              Rejected e \<Rightarrow> [ConsoleError ''Failed to clear html5QrcodeScanner. '' e]
            | _ \<Rightarrow> [])"
    unfolding f using a(2,5) by (simp add: unmount_eq cleanup_eq)
  show "unhandled (world (run s (Mount p # map Update qs @ [Unmount]))) = unhandled (world s)"
    unfolding f using a(3,5) by (simp add: unmount_eq cleanup_eq)
  show "uncaught (run s (Mount p # map Update qs @ [Unmount])) = uncaught s"
    unfolding f using a(5,6) by (simp add: unmount_eq)
  show "committed (run s (Mount p # map Update qs @ [Unmount])) = None"
    unfolding f using a(5) by (simp add: unmount_eq)
  show "destroy (run s (Mount p # map Update qs @ [Unmount])) = None"
    unfolding f using a(5) by (simp add: unmount_eq)
qed

lemma cb_absent:
  "p ''qrCodeSuccessCallback'' = None \<Longrightarrow> \<not> truthy (qrCodeSuccessCallback (destructure p))"
  by (simp add: destructure_def pick_def)

lemma cb_falsy:
  "p ''qrCodeSuccessCallback'' = Some v \<Longrightarrow> \<not> truthy v \<Longrightarrow>
   \<not> truthy (qrCodeSuccessCallback (destructure p))"
  by (simp add: destructure_def pick_def)

lemma since_same: "world s' = world s \<Longrightarrow> since s s' = []"
  by (simp add: since_def)

lemma verbose_strict: "(verbose (destructure p) = JBool True) = (p ''verbose'' = Some (JBool True))"
  by (auto simp: destructure_def pick_def split: option.split)

lemma mount_trace:
  "trace (world (mount p s)) =
     trace (world s) @
     (if truthy (qrCodeSuccessCallback (destructure p))
      then Construct (next_handle (world s)) qrcodeRegionId (scan_config (destructure p))
             (verbose (destructure p) = JBool True) #
           (case construct_throws (world s) (next_handle (world s)) of
              None \<Rightarrow>
                [Render (next_handle (world s)) (qrCodeSuccessCallback (destructure p))
                   (qrCodeErrorCallback (destructure p))]
            | Some x \<Rightarrow> [])
      else [])"
  by (simp only: mount_world effect_trace)

lemma falsy_values:
  "(\<not> truthy v) = (v \<in> {JUndefined, JNull, JBool False, JNum 0, JNaN, JStr []})"
  by (cases v) auto

lemma rest_without_callback:
  "rest (destructure (p(''qrCodeSuccessCallback'' := None))) = rest (destructure p)"
  by (rule ext) (simp add: destructure_def named_props_def restrict_map_def)

lemma elem_without_callback:
  "elem (Html5QrcodePlugin (p(''qrCodeSuccessCallback'' := None))) = elem (Html5QrcodePlugin p)"
  by (simp add: Html5QrcodePlugin_def Let_def rest_without_callback)

lemma mount_constructs:
  "filter is_Construct (since s (mount p s)) =
     (if truthy (qrCodeSuccessCallback (destructure p))
      then [Construct (next_handle (world s)) qrcodeRegionId
              (scan_config (effect_env (Html5QrcodePlugin p)))
              (verbose (destructure p) = JBool True)]
      else [])"
  by (simp add: since_def mount_trace plugin_env split: option.split)

lemma scan_config_dom:
  "dom (scan_config v) = {''fps'', ''qrbox'', ''aspectRatio'', ''disableFlip''}"
  by (auto simp: scan_config_def)

lemma named_not_config:
  "k \<notin> set named_props \<Longrightarrow> k \<notin> {''fps'', ''qrbox'', ''aspectRatio'', ''disableFlip''}"
  by (auto simp: named_props_def)

lemma attrs_eq:
  "attrs (elem (Html5QrcodePlugin p)) = [''id'' \<mapsto> JStr qrcodeRegionId] ++ (p |` (- set named_props))"
  by (simp add: Html5QrcodePlugin_def destructure_def Let_def)

lemma region_id_kept:
  "p ''id'' = None \<Longrightarrow> attrs (elem (Html5QrcodePlugin p)) ''id'' = Some (JStr qrcodeRegionId)"
  by (simp add: attrs_eq map_add_def restrict_map_def)

section \<open>The lifecycle of one mount\<close>

text \<open>
  Claim C1, as the code has it. From any state in which the instance is not mounted, a
  mount with a truthy success callback in which the scanner's constructor and its
  \<^verbatim>\<open>render\<close> return normally, followed by any number of re-renders with any props and
  then the removal, makes these calls and no others, in this order: one construction of a
  scanner, one \<^verbatim>\<open>render\<close> on it, one \<^verbatim>\<open>clear\<close> on it (and the log entry when the
  promise of \<^verbatim>\<open>clear\<close> is rejected). Before the removal the calls are the two of the
  activation, whatever the re-renders were: the activation runs once and later props are
  ignored.
\<close>

theorem one_handle_one_release:
  assumes "committed s = None"
    and "p ''qrCodeSuccessCallback'' = Some c" and "truthy c"
    and "construct_throws (world s) (next_handle (world s)) = None"
    and "render_throws (world s) (next_handle (world s)) = None"
  shows "since s (run s (Mount p # map Update qs)) =
           [Construct (next_handle (world s)) qrcodeRegionId (scan_config (destructure p))
              (verbose (destructure p) = JBool True),
            Render (next_handle (world s)) c (qrCodeErrorCallback (destructure p))] \<and>
         since s (run s (Mount p # map Update qs @ [Unmount])) =
           [Construct (next_handle (world s)) qrcodeRegionId (scan_config (destructure p))
              (verbose (destructure p) = JBool True),
            Render (next_handle (world s)) c (qrCodeErrorCallback (destructure p)),
            Clear (next_handle (world s))] @
           (case clear_promise (world s) (next_handle (world s)) of
              Rejected e \<Rightarrow> [ConsoleError ''Failed to clear html5QrcodeScanner. '' e]
            | _ \<Rightarrow> []) \<and>
         length (filter is_Construct (since s (run s (Mount p # map Update qs @ [Unmount])))) = 1 \<and>
         length (filter is_Clear (since s (run s (Mount p # map Update qs @ [Unmount])))) = 1 \<and>
         committed (run s (Mount p # map Update qs @ [Unmount])) = None \<and>
         destroy (run s (Mount p # map Update qs @ [Unmount])) = None"
proof -
  note a = trace_active [where s=s and p=p and c=c and qs=qs, OF assms]
  note f = trace_final [where s=s and p=p and c=c and qs=qs, OF assms]
  have s1: "since s (run s (Mount p # map Update qs)) =
           [Construct (next_handle (world s)) qrcodeRegionId (scan_config (destructure p))
              (verbose (destructure p) = JBool True),
            Render (next_handle (world s)) c (qrCodeErrorCallback (destructure p))]"
    using a(1) by (rule since_self_append)
  have s2: "since s (run s (Mount p # map Update qs @ [Unmount])) =
           [Construct (next_handle (world s)) qrcodeRegionId (scan_config (destructure p))
              (verbose (destructure p) = JBool True),
            Render (next_handle (world s)) c (qrCodeErrorCallback (destructure p)),
            Clear (next_handle (world s))] @
           (case clear_promise (world s) (next_handle (world s)) of
              Rejected e \<Rightarrow> [ConsoleError ''Failed to clear html5QrcodeScanner. '' e]
            | _ \<Rightarrow> [])"
    by (rule since_self_append) (simp add: f(1) a(1))
  have n: "length (filter is_Construct (since s (run s (Mount p # map Update qs @ [Unmount])))) = 1"
     "length (filter is_Clear (since s (run s (Mount p # map Update qs @ [Unmount])))) = 1"
    unfolding s2 by (simp_all split: promise.split)
  show ?thesis
    using s1 s2 n f(4,5) by simp
qed

theorem one_handle_one_release_witness:
  "committed (fresh_host (\<lambda>h. Rejected (JStr ''busy''))) = None \<and> truthy (JFun 0) \<and>
   since (fresh_host (\<lambda>h. Rejected (JStr ''busy'')))
     (run (fresh_host (\<lambda>h. Rejected (JStr ''busy'')))
        [Mount [''qrCodeSuccessCallback'' \<mapsto> JFun 0],
         Update [''qrCodeSuccessCallback'' \<mapsto> JFun 1, ''fps'' \<mapsto> JNum 5],
         Unmount]) =
     [Construct 0 qrcodeRegionId
        [''fps'' \<mapsto> JUndefined, ''qrbox'' \<mapsto> JUndefined,
         ''aspectRatio'' \<mapsto> JUndefined, ''disableFlip'' \<mapsto> JUndefined] False,
      Render 0 (JFun 0) JUndefined,
      Clear 0,
      ConsoleError ''Failed to clear html5QrcodeScanner. '' (JStr ''busy'')]"
  using one_handle_one_release [of "fresh_host (\<lambda>h. Rejected (JStr ''busy''))"
      "[''qrCodeSuccessCallback'' \<mapsto> JFun 0]" "JFun 0"
      "[[''qrCodeSuccessCallback'' \<mapsto> JFun 1, ''fps'' \<mapsto> JNum 5]]"]
  by (simp add: fresh_host_def destructure_def pick_def scan_config_def)

text \<open>
  Claim C1 as it is worded speaks of every mount with a valid success callback. Take the
  props \<^verbatim>\<open>{id: "other", qrCodeSuccessCallback: f}\<close> and a scanner library whose
  constructor throws because no element carries the region identifier. The constructor is
  called once and yields no scanner, the effect ends there without returning a cleanup,
  and the removal attempts no release: the thrown value reaches the host and nothing else
  happens.
\<close>

theorem construct_failure_no_release:
  "committed (host_over
      (\<lambda>h. Some (JStr ''HTML Element with id=html5qr-code-full-region not found''))
      (\<lambda>h. None) (\<lambda>h. Pending)) = None \<and>
   truthy (JFun 0) \<and>
   since (host_over
      (\<lambda>h. Some (JStr ''HTML Element with id=html5qr-code-full-region not found''))
      (\<lambda>h. None) (\<lambda>h. Pending))
     (run (host_over
        (\<lambda>h. Some (JStr ''HTML Element with id=html5qr-code-full-region not found''))
        (\<lambda>h. None) (\<lambda>h. Pending))
        [Mount [''id'' \<mapsto> JStr ''other'', ''qrCodeSuccessCallback'' \<mapsto> JFun 0],
         Unmount]) =
     [Construct 0 qrcodeRegionId
        [''fps'' \<mapsto> JUndefined, ''qrbox'' \<mapsto> JUndefined,
         ''aspectRatio'' \<mapsto> JUndefined, ''disableFlip'' \<mapsto> JUndefined] False] \<and>
   filter is_Clear (trace (world (run (host_over
        (\<lambda>h. Some (JStr ''HTML Element with id=html5qr-code-full-region not found''))
        (\<lambda>h. None) (\<lambda>h. Pending))
        [Mount [''id'' \<mapsto> JStr ''other'', ''qrCodeSuccessCallback'' \<mapsto> JFun 0],
         Unmount]))) = [] \<and>
   next_handle (world (run (host_over
        (\<lambda>h. Some (JStr ''HTML Element with id=html5qr-code-full-region not found''))
        (\<lambda>h. None) (\<lambda>h. Pending))
        [Mount [''id'' \<mapsto> JStr ''other'', ''qrCodeSuccessCallback'' \<mapsto> JFun 0],
         Unmount])) = 0 \<and>
   destroy (run (host_over
        (\<lambda>h. Some (JStr ''HTML Element with id=html5qr-code-full-region not found''))
        (\<lambda>h. None) (\<lambda>h. Pending))
        [Mount [''id'' \<mapsto> JStr ''other'', ''qrCodeSuccessCallback'' \<mapsto> JFun 0]]) =
     None \<and>
   uncaught (run (host_over
        (\<lambda>h. Some (JStr ''HTML Element with id=html5qr-code-full-region not found''))
        (\<lambda>h. None) (\<lambda>h. Pending))
        [Mount [''id'' \<mapsto> JStr ''other'', ''qrCodeSuccessCallback'' \<mapsto> JFun 0],
         Unmount]) =
     [JStr ''HTML Element with id=html5qr-code-full-region not found'']"
  by (simp add: host_over_def run_def since_def mount_def unmount_def run_destroy_def
      run_effect_def Html5QrcodePlugin_def effect_def emit_def destructure_def pick_def
      scan_config_def Let_def)

section \<open>Activation without a success callback\<close>

text \<open>
  Claim C2. When the props carry no \<^verbatim>\<open>qrCodeSuccessCallback\<close>, the effect throws the string
  \<^verbatim>\<open>"qrCodeSuccessCallback is required callback."\<close> and leaves the world as it found it:
  no constructor call, no \<^verbatim>\<open>render\<close>, no scanner instance allocated. Through the mount and
  any later re-renders nothing is called on the scanner library, no cleanup is registered,
  and the thrown string is the one error that reached the host.
\<close>

theorem missing_callback_fails_fast:
  assumes "committed s = None" and "p ''qrCodeSuccessCallback'' = None"
  shows "effect (effect_env (Html5QrcodePlugin p)) (world s) =
           (Inl (JStr ''qrCodeSuccessCallback is required callback.''), world s) \<and>
         world (run s (Mount p # map Update qs)) = world s \<and>
         since s (run s (Mount p # map Update qs)) = [] \<and>
         destroy (run s (Mount p # map Update qs)) = None \<and>
         uncaught (run s (Mount p # map Update qs)) =
           uncaught s @ [JStr ''qrCodeSuccessCallback is required callback.'']"
proof -
  have f: "\<not> truthy (qrCodeSuccessCallback (destructure p))"
    using assms(2) by (rule cb_absent)
  note a = active_fail [OF assms(1) f, of qs]
  have "since s (run s (Mount p # map Update qs)) = []"
    using a by (simp add: since_same)
  then show ?thesis
    using a f by (simp add: plugin_env effect_fail)
qed

theorem missing_callback_fails_fast_witness:
  "committed (fresh_host (\<lambda>h. Pending)) = None \<and>
   [''fps'' \<mapsto> JNum 10] ''qrCodeSuccessCallback'' = None \<and>
   trace (world (run (fresh_host (\<lambda>h. Pending))
      [Mount [''fps'' \<mapsto> JNum 10], Update [''fps'' \<mapsto> JNum 20]])) = [] \<and>
   next_handle (world (run (fresh_host (\<lambda>h. Pending))
      [Mount [''fps'' \<mapsto> JNum 10], Update [''fps'' \<mapsto> JNum 20]])) = 0 \<and>
   uncaught (run (fresh_host (\<lambda>h. Pending))
      [Mount [''fps'' \<mapsto> JNum 10], Update [''fps'' \<mapsto> JNum 20]]) =
     [JStr ''qrCodeSuccessCallback is required callback.'']"
  using missing_callback_fails_fast [of "fresh_host (\<lambda>h. Pending)" "[''fps'' \<mapsto> JNum 10]"
      "[[''fps'' \<mapsto> JNum 20]]"]
  by (simp add: fresh_host_def)

section \<open>The scenario of the specification\<close>

text \<open>
  Claim C3. Mounting with the props \<^verbatim>\<open>{fps: 10, qrbox: 250, qrCodeSuccessCallback: cb}\<close>
  constructs the scanner for the region identifier with the configuration
  \<^verbatim>\<open>{fps: 10, qrbox: 250, aspectRatio: undefined, disableFlip: undefined}\<close> and the verbose
  flag false, and calls \<^verbatim>\<open>render(cb, undefined)\<close> on it; the removal then calls \<^verbatim>\<open>clear\<close>
  on that scanner, once, however the promise of \<^verbatim>\<open>clear\<close> ends.
\<close>

theorem scenario_mount_unmount:
  "since (fresh_host cp)
     (run (fresh_host cp)
        [Mount [''fps'' \<mapsto> JNum 10, ''qrbox'' \<mapsto> JNum 250,
                ''qrCodeSuccessCallback'' \<mapsto> JFun cb]]) =
     [Construct 0 qrcodeRegionId
        [''fps'' \<mapsto> JNum 10, ''qrbox'' \<mapsto> JNum 250,
         ''aspectRatio'' \<mapsto> JUndefined, ''disableFlip'' \<mapsto> JUndefined] False,
      Render 0 (JFun cb) JUndefined] \<and>
   take 3 (since (fresh_host cp)
     (run (fresh_host cp)
        [Mount [''fps'' \<mapsto> JNum 10, ''qrbox'' \<mapsto> JNum 250,
                ''qrCodeSuccessCallback'' \<mapsto> JFun cb], Unmount])) =
     [Construct 0 qrcodeRegionId
        [''fps'' \<mapsto> JNum 10, ''qrbox'' \<mapsto> JNum 250,
         ''aspectRatio'' \<mapsto> JUndefined, ''disableFlip'' \<mapsto> JUndefined] False,
      Render 0 (JFun cb) JUndefined,
      Clear 0] \<and>
   filter is_Clear (since (fresh_host cp)
     (run (fresh_host cp)
        [Mount [''fps'' \<mapsto> JNum 10, ''qrbox'' \<mapsto> JNum 250,
                ''qrCodeSuccessCallback'' \<mapsto> JFun cb], Unmount])) = [Clear 0]"
proof -
  let ?s = "fresh_host cp"
  let ?p = "[''fps'' \<mapsto> JNum 10, ''qrbox'' \<mapsto> JNum 250,
                ''qrCodeSuccessCallback'' \<mapsto> JFun cb]"
  have h: "committed ?s = None"
    by (simp add: fresh_host_def)
  have c: "?p ''qrCodeSuccessCallback'' = Some (JFun cb)" and t: "truthy (JFun cb)"
    by simp_all
  have n: "construct_throws (world ?s) (next_handle (world ?s)) = None"
      "render_throws (world ?s) (next_handle (world ?s)) = None"
    by (simp_all add: fresh_host_def)
  note a = trace_active [where s="?s" and p="?p" and c="JFun cb" and qs="[]", OF h c t n]
  note f = trace_final [where s="?s" and p="?p" and c="JFun cb" and qs="[]", OF h c t n]
  have ta: "trace (world (run ?s [Mount ?p])) =
     [Construct 0 qrcodeRegionId
        [''fps'' \<mapsto> JNum 10, ''qrbox'' \<mapsto> JNum 250,
         ''aspectRatio'' \<mapsto> JUndefined, ''disableFlip'' \<mapsto> JUndefined] False,
      Render 0 (JFun cb) JUndefined]"
    using a(1) by (simp add: fresh_host_def destructure_def pick_def scan_config_def)
  have tf: "trace (world (run ?s [Mount ?p, Unmount])) =
     [Construct 0 qrcodeRegionId
        [''fps'' \<mapsto> JNum 10, ''qrbox'' \<mapsto> JNum 250,
         ''aspectRatio'' \<mapsto> JUndefined, ''disableFlip'' \<mapsto> JUndefined] False,
      Render 0 (JFun cb) JUndefined, Clear 0] @
     (case cp 0 of
        Rejected e \<Rightarrow> [ConsoleError ''Failed to clear html5QrcodeScanner. '' e]
      | _ \<Rightarrow> [])"
    using f(1) ta by (simp add: fresh_host_def)
  have e: "trace (world ?s) = []"
    by (simp add: fresh_host_def)
  show ?thesis
    using ta tf e by (simp add: since_def split: promise.split)
qed

section \<open>The fields of the scan configuration\<close>

text \<open>
  Claim C4, as the code has it. Each of the four fields \<^verbatim>\<open>fps\<close>, \<^verbatim>\<open>qrbox\<close>,
  \<^verbatim>\<open>aspectRatio\<close>, \<^verbatim>\<open>disableFlip\<close> is always a property of the configuration object. A
  field the caller supplied carries the caller's value; a field the caller did not supply
  is present with the value \<^verbatim>\<open>undefined\<close>, the component putting no default of its own in
  its place. This object is the one handed to the constructor whenever a scanner is made.
\<close>

theorem config_fields_always_present:
  assumes "k \<in> {''fps'', ''qrbox'', ''aspectRatio'', ''disableFlip''}"
  shows "scan_config (effect_env (Html5QrcodePlugin p)) k =
           Some (case p k of None \<Rightarrow> JUndefined | Some x \<Rightarrow> x) \<and>
         filter is_Construct (since s (mount p s)) =
           (if truthy (qrCodeSuccessCallback (destructure p))
            then [Construct (next_handle (world s)) qrcodeRegionId
                    (scan_config (effect_env (Html5QrcodePlugin p)))
                    (verbose (destructure p) = JBool True)]
            else [])"
proof -
  have "scan_config (destructure p) k = Some (pick p k JUndefined)"
    using assms by (auto simp: scan_config_def destructure_def)
  then show ?thesis
    by (simp only: plugin_env pick_undefined mount_constructs simp_thms)
qed

theorem config_fields_always_present_witness:
  "''qrbox'' \<in> {''fps'', ''qrbox'', ''aspectRatio'', ''disableFlip''} \<and>
   scan_config (effect_env (Html5QrcodePlugin
      [''fps'' \<mapsto> JNum 10, ''qrCodeSuccessCallback'' \<mapsto> JFun 0])) ''qrbox'' =
     Some JUndefined"
  using config_fields_always_present [of "''qrbox''"
      "[''fps'' \<mapsto> JNum 10, ''qrCodeSuccessCallback'' \<mapsto> JFun 0]"]
  by simp

text \<open>
  Claim C4 as it is worded says that a field the caller did not supply is omitted. For the
  props \<^verbatim>\<open>{qrCodeSuccessCallback: f}\<close>, which carry no \<^verbatim>\<open>fps\<close>, the configuration handed
  to the constructor has the property \<^verbatim>\<open>fps\<close> all the same, with the value \<^verbatim>\<open>undefined\<close>.
\<close>

theorem unsupplied_field_not_omitted:
  "[''qrCodeSuccessCallback'' \<mapsto> JFun 0] ''fps'' = None \<and>
   filter is_Construct (since (fresh_host (\<lambda>h. Pending))
     (mount [''qrCodeSuccessCallback'' \<mapsto> JFun 0] (fresh_host (\<lambda>h. Pending)))) =
     [Construct 0 qrcodeRegionId
        [''fps'' \<mapsto> JUndefined, ''qrbox'' \<mapsto> JUndefined,
         ''aspectRatio'' \<mapsto> JUndefined, ''disableFlip'' \<mapsto> JUndefined] False] \<and>
   ''fps'' \<in> dom [''fps'' \<mapsto> JUndefined, ''qrbox'' \<mapsto> JUndefined,
         ''aspectRatio'' \<mapsto> JUndefined, ''disableFlip'' \<mapsto> JUndefined]"
  by (simp add: mount_constructs plugin_env destructure_def pick_def scan_config_def fresh_host_def)

section \<open>The identifier of the container\<close>

text \<open>
  Claim C5 says that the container carries the region identifier whatever the passthrough
  props are. That holds when the props have no \<^verbatim>\<open>id\<close> (\<open>region_id_kept\<close>). For the props
  \<^verbatim>\<open>{id: "other", qrCodeSuccessCallback: f}\<close> the spread of the rest object, which comes
  after \<^verbatim>\<open>id\<close> in the element, replaces it: the container carries \<^verbatim>\<open>"other"\<close>, while
  the scanner is still constructed for \<^verbatim>\<open>"html5qr-code-full-region"\<close>.
\<close>

theorem region_id_overridden:
  "attrs (elem (Html5QrcodePlugin
      [''id'' \<mapsto> JStr ''other'', ''qrCodeSuccessCallback'' \<mapsto> JFun 0])) ''id'' =
     Some (JStr ''other'') \<and>
   JStr ''other'' \<noteq> JStr qrcodeRegionId \<and>
   filter is_Construct (since (fresh_host (\<lambda>h. Pending))
     (mount [''id'' \<mapsto> JStr ''other'', ''qrCodeSuccessCallback'' \<mapsto> JFun 0]
        (fresh_host (\<lambda>h. Pending)))) =
     [Construct 0 qrcodeRegionId
        [''fps'' \<mapsto> JUndefined, ''qrbox'' \<mapsto> JUndefined,
         ''aspectRatio'' \<mapsto> JUndefined, ''disableFlip'' \<mapsto> JUndefined] False]"
  by (simp add: attrs_eq named_props_def qrcodeRegionId_def map_add_def
      mount_constructs plugin_env destructure_def pick_def scan_config_def fresh_host_def)

section \<open>The verbose flag\<close>

text \<open>
  Claim C6. When a scanner is constructed, the flag handed to the constructor is true
  exactly when the \<^verbatim>\<open>verbose\<close> prop is present and is the boolean \<^verbatim>\<open>true\<close>; for the
  string \<^verbatim>\<open>"true"\<close>, the number 1, any other value, or an absent prop it is false.
  The constructor call with this flag is the first call of every mount with a truthy
  callback; \<^verbatim>\<open>render\<close> follows it when the constructor returns, and nothing follows it
  when the constructor throws.
\<close>

theorem verbose_only_literal_true:
  assumes "p ''qrCodeSuccessCallback'' = Some c" and "truthy c"
  shows "since s (mount p s) =
           Construct (next_handle (world s)) qrcodeRegionId (scan_config (destructure p))
             (p ''verbose'' = Some (JBool True)) #
           (case construct_throws (world s) (next_handle (world s)) of
              None \<Rightarrow> [Render (next_handle (world s)) c (qrCodeErrorCallback (destructure p))]
            | Some x \<Rightarrow> [])"
proof -
  have cb: "qrCodeSuccessCallback (destructure p) = c"
    using assms by (rule cb_truthy)
  show ?thesis
    by (rule since_self_append)
      (simp add: mount_trace cb assms(2) verbose_strict split: option.split)
qed

theorem verbose_only_literal_true_witness:
  "truthy (JFun 0) \<and>
   map is_Construct (since (fresh_host (\<lambda>h. Pending))
     (mount [''verbose'' \<mapsto> JStr ''true'', ''qrCodeSuccessCallback'' \<mapsto> JFun 0]
        (fresh_host (\<lambda>h. Pending)))) = [True, False] \<and>
   hd (since (fresh_host (\<lambda>h. Pending))
     (mount [''verbose'' \<mapsto> JStr ''true'', ''qrCodeSuccessCallback'' \<mapsto> JFun 0]
        (fresh_host (\<lambda>h. Pending)))) =
     Construct 0 qrcodeRegionId
        [''fps'' \<mapsto> JUndefined, ''qrbox'' \<mapsto> JUndefined,
         ''aspectRatio'' \<mapsto> JUndefined, ''disableFlip'' \<mapsto> JUndefined] False"
  using verbose_only_literal_true [of
      "[''verbose'' \<mapsto> JStr ''true'', ''qrCodeSuccessCallback'' \<mapsto> JFun 0]" "JFun 0"
      "fresh_host (\<lambda>h. Pending)"]
  by (simp add: fresh_host_def destructure_def pick_def scan_config_def)

section \<open>A release that fails\<close>

text \<open>
  Claim C7. A release takes place only after an activation that went through, the
  constructor and \<^verbatim>\<open>render\<close> having returned. When the promise returned by \<^verbatim>\<open>clear\<close>
  for the scanner of such a mount is rejected with \<open>e\<close>, the removal calls \<^verbatim>\<open>clear\<close> once and logs
  \<^verbatim>\<open>console.error("Failed to clear html5QrcodeScanner. ", e)\<close>; the cleanup function
  returns normally, no error reaches the host, no rejection is left unhandled, and the
  instance ends unmounted with no cleanup pending.
\<close>

theorem release_failure_logged:
  assumes "committed s = None"
    and "p ''qrCodeSuccessCallback'' = Some c" and "truthy c"
    and "clear_promise (world s) (next_handle (world s)) = Rejected e"
    and "construct_throws (world s) (next_handle (world s)) = None"
    and "render_throws (world s) (next_handle (world s)) = None"
  shows "cleanup (next_handle (world s)) (world (run s (Mount p # map Update qs))) =
           (Inr (), world (run s (Mount p # map Update qs @ [Unmount]))) \<and>
         since (run s (Mount p # map Update qs)) (run s (Mount p # map Update qs @ [Unmount])) =
           [Clear (next_handle (world s)),
            ConsoleError ''Failed to clear html5QrcodeScanner. '' e] \<and>
         uncaught (run s (Mount p # map Update qs @ [Unmount])) = uncaught s \<and>
         unhandled (world (run s (Mount p # map Update qs @ [Unmount]))) = unhandled (world s) \<and>
         committed (run s (Mount p # map Update qs @ [Unmount])) = None \<and>
         destroy (run s (Mount p # map Update qs @ [Unmount])) = None"
proof -
  note a = trace_active [where s=s and p=p and c=c and qs=qs, OF assms(1-3) assms(5,6)]
  note f = trace_final [where s=s and p=p and c=c and qs=qs, OF assms(1-3) assms(5,6)]
  have u: "run s (Mount p # map Update qs @ [Unmount]) = unmount (run s (Mount p # map Update qs))"
    using unmount_after [OF a(7)] by simp
  have w: "world (run s (Mount p # map Update qs @ [Unmount])) =
      snd (cleanup (next_handle (world s)) (world (run s (Mount p # map Update qs))))"
    unfolding u using a(5) by (simp add: unmount_eq)
  have r: "fst (cleanup (next_handle (world s)) (world (run s (Mount p # map Update qs)))) = Inr ()"
    by (simp add: cleanup_eq)
  have c1: "cleanup (next_handle (world s)) (world (run s (Mount p # map Update qs))) =
           (Inr (), world (run s (Mount p # map Update qs @ [Unmount])))"
    using w r by (simp add: prod_eq_iff)
  have c2: "since (run s (Mount p # map Update qs)) (run s (Mount p # map Update qs @ [Unmount])) =
           [Clear (next_handle (world s)),
            ConsoleError ''Failed to clear html5QrcodeScanner. '' e]"
    by (rule since_self_append) (simp add: f(1) assms(4))
  show ?thesis
    using c1 c2 f(2-5) by simp
qed

theorem release_failure_logged_witness:
  "committed (fresh_host (\<lambda>h. Rejected (JStr ''camera busy''))) = None \<and> truthy (JFun 7) \<and>
   since (run (fresh_host (\<lambda>h. Rejected (JStr ''camera busy'')))
            [Mount [''qrCodeSuccessCallback'' \<mapsto> JFun 7]])
     (run (fresh_host (\<lambda>h. Rejected (JStr ''camera busy'')))
        [Mount [''qrCodeSuccessCallback'' \<mapsto> JFun 7], Unmount]) =
     [Clear 0, ConsoleError ''Failed to clear html5QrcodeScanner. '' (JStr ''camera busy'')] \<and>
   uncaught (run (fresh_host (\<lambda>h. Rejected (JStr ''camera busy'')))
      [Mount [''qrCodeSuccessCallback'' \<mapsto> JFun 7], Unmount]) = [] \<and>
   unhandled (world (run (fresh_host (\<lambda>h. Rejected (JStr ''camera busy'')))
      [Mount [''qrCodeSuccessCallback'' \<mapsto> JFun 7], Unmount])) = []"
  using release_failure_logged [of "fresh_host (\<lambda>h. Rejected (JStr ''camera busy''))"
      "[''qrCodeSuccessCallback'' \<mapsto> JFun 7]" "JFun 7" "JStr ''camera busy''" "[]"]
  by (simp add: fresh_host_def)

section \<open>Passthrough props\<close>

text \<open>
  Claim C8. A prop whose name is none of the seven named ones appears with its value
  unchanged among the attributes of the container element, and is no property of the scan
  configuration; the properties of the configuration are the four scan-related names and
  no others, and this configuration is the one handed to the constructor whenever a
  scanner is made.
\<close>

theorem passthrough_props:
  assumes "k \<notin> set named_props" and "p k = Some x"
  shows "attrs (elem (Html5QrcodePlugin p)) k = Some x \<and>
         scan_config (effect_env (Html5QrcodePlugin p)) k = None \<and>
         dom (scan_config (effect_env (Html5QrcodePlugin p))) =
           {''fps'', ''qrbox'', ''aspectRatio'', ''disableFlip''} \<and>
         filter is_Construct (since s (mount p s)) =
           (if truthy (qrCodeSuccessCallback (destructure p))
            then [Construct (next_handle (world s)) qrcodeRegionId
                    (scan_config (effect_env (Html5QrcodePlugin p)))
                    (verbose (destructure p) = JBool True)]
            else [])"
proof -
  have a: "attrs (elem (Html5QrcodePlugin p)) k = Some x"
    using assms by (simp add: attrs_eq map_add_def)
  have "k \<notin> dom (scan_config (effect_env (Html5QrcodePlugin p)))"
    using named_not_config [OF assms(1)] by (simp add: scan_config_dom)
  then have b: "scan_config (effect_env (Html5QrcodePlugin p)) k = None"
    by blast
  show ?thesis
    using a b by (simp only: scan_config_dom mount_constructs simp_thms)
qed

theorem passthrough_props_witness:
  "''className'' \<notin> set named_props \<and>
   attrs (elem (Html5QrcodePlugin
      [''className'' \<mapsto> JStr ''scanner'', ''fps'' \<mapsto> JNum 10,
       ''qrCodeSuccessCallback'' \<mapsto> JFun 0])) ''className'' = Some (JStr ''scanner'') \<and>
   filter is_Construct (since (fresh_host (\<lambda>h. Pending))
     (mount [''className'' \<mapsto> JStr ''scanner'', ''fps'' \<mapsto> JNum 10,
             ''qrCodeSuccessCallback'' \<mapsto> JFun 0] (fresh_host (\<lambda>h. Pending)))) =
     [Construct 0 qrcodeRegionId
        [''fps'' \<mapsto> JNum 10, ''qrbox'' \<mapsto> JUndefined,
         ''aspectRatio'' \<mapsto> JUndefined, ''disableFlip'' \<mapsto> JUndefined] False] \<and>
   [''fps'' \<mapsto> JNum 10, ''qrbox'' \<mapsto> JUndefined,
    ''aspectRatio'' \<mapsto> JUndefined, ''disableFlip'' \<mapsto> JUndefined] ''className'' = None"
proof -
  let ?p = "[''className'' \<mapsto> JStr ''scanner'', ''fps'' \<mapsto> JNum 10,
       ''qrCodeSuccessCallback'' \<mapsto> JFun 0]"
  have k: "''className'' \<notin> set named_props"
    by (simp add: named_props_def)
  have x: "?p ''className'' = Some (JStr ''scanner'')"
    by simp
  note r = passthrough_props [where p="?p" and k="''className''" and x="JStr ''scanner''"
      and s="fresh_host (\<lambda>h. Pending)", OF k x]
  from r have a: "attrs (elem (Html5QrcodePlugin ?p)) ''className'' = Some (JStr ''scanner'')"
    by blast
  from r have c: "filter is_Construct (since (fresh_host (\<lambda>h. Pending))
       (mount ?p (fresh_host (\<lambda>h. Pending)))) =
     (if truthy (qrCodeSuccessCallback (destructure ?p))
      then [Construct (next_handle (world (fresh_host (\<lambda>h. Pending)))) qrcodeRegionId
              (scan_config (effect_env (Html5QrcodePlugin ?p)))
              (verbose (destructure ?p) = JBool True)]
      else [])"
    by blast
  show ?thesis
    using k a c by (simp add: plugin_env destructure_def pick_def scan_config_def fresh_host_def)
qed

section \<open>A success callback that is present but falsy\<close>

text \<open>
  Claim C9. When \<^verbatim>\<open>qrCodeSuccessCallback\<close> is supplied with a value that is not truthy
  (\<^verbatim>\<open>null\<close>, \<^verbatim>\<open>false\<close>, \<^verbatim>\<open>0\<close>, the empty string; \<open>falsy_values\<close> lists them all), the
  effect throws the same string as when the prop is absent and touches nothing, and the
  mount leaves the host in the very state that the mount of the same props without the
  callback leaves it in.
\<close>

theorem falsy_callback_rejected:
  assumes "p ''qrCodeSuccessCallback'' = Some v" and "\<not> truthy v"
  shows "effect (effect_env (Html5QrcodePlugin p)) w =
           (Inl (JStr ''qrCodeSuccessCallback is required callback.''), w) \<and>
         effect (effect_env (Html5QrcodePlugin p)) w =
           effect (effect_env (Html5QrcodePlugin (p(''qrCodeSuccessCallback'' := None)))) w \<and>
         step s (Mount p) = step s (Mount (p(''qrCodeSuccessCallback'' := None)))"
proof -
  have f: "\<not> truthy (qrCodeSuccessCallback (destructure p))"
    using assms by (rule cb_falsy)
  have g: "\<not> truthy (qrCodeSuccessCallback (destructure (p(''qrCodeSuccessCallback'' := None))))"
    by (rule cb_absent) simp
  have "mount p s = mount (p(''qrCodeSuccessCallback'' := None)) s"
    by (simp add: mount_fail [OF f] mount_fail [OF g] elem_without_callback)
  then show ?thesis
    using f g by (simp add: plugin_env effect_fail)
qed

theorem falsy_callback_rejected_witness:
  "\<not> truthy (JNum 0) \<and>
   uncaught (step (fresh_host (\<lambda>h. Pending))
      (Mount [''qrCodeSuccessCallback'' \<mapsto> JNum 0])) =
     [JStr ''qrCodeSuccessCallback is required callback.''] \<and>
   trace (world (step (fresh_host (\<lambda>h. Pending))
      (Mount [''qrCodeSuccessCallback'' \<mapsto> JNum 0]))) = []"
proof -
  let ?s = "fresh_host (\<lambda>h. Pending)"
  let ?p = "[''qrCodeSuccessCallback'' \<mapsto> JNum 0]"
  have h: "committed ?s = None"
    by (simp add: fresh_host_def)
  have v: "?p ''qrCodeSuccessCallback'' = Some (JNum 0)" and t: "\<not> truthy (JNum 0)"
    by simp_all
  have a: "\<not> truthy (qrCodeSuccessCallback (destructure Map.empty))"
    by (rule cb_absent) simp
  have "step ?s (Mount ?p) = step ?s (Mount (?p(''qrCodeSuccessCallback'' := None)))"
    using falsy_callback_rejected [where p="?p" and v="JNum 0" and s="?s", OF v t] by blast
  then have "step ?s (Mount ?p) = mount Map.empty ?s"
    using h by simp
  then show ?thesis
    by (simp add: mount_fail [OF a] fresh_host_def)
qed

section \<open>Removal after a failed activation\<close>

text \<open>
  Claim C10. When the activation fails on the callback check, no cleanup is registered.
  The removal that follows (with or without re-renders in between) calls nothing on the
  scanner library or the console, lets no further error reach the host, and leaves the
  instance unmounted: of the failed activation there remain the container element that
  was committed at the mount and the one thrown string.
\<close>

theorem failed_activation_no_teardown:
  assumes "committed s = None" and "\<not> truthy (qrCodeSuccessCallback (destructure p))"
  shows "destroy (run s (Mount p # map Update qs)) = None \<and>
         committed (run s [Mount p]) = Some (elem (Html5QrcodePlugin p)) \<and>
         since s (run s (Mount p # map Update qs @ [Unmount])) = [] \<and>
         world (run s (Mount p # map Update qs @ [Unmount])) = world s \<and>
         uncaught (run s (Mount p # map Update qs @ [Unmount])) =
           uncaught (run s (Mount p # map Update qs)) \<and>
         uncaught (run s (Mount p # map Update qs @ [Unmount])) =
           uncaught s @ [JStr ''qrCodeSuccessCallback is required callback.''] \<and>
         committed (run s (Mount p # map Update qs @ [Unmount])) = None \<and>
         destroy (run s (Mount p # map Update qs @ [Unmount])) = None"
proof -
  note a = active_fail [OF assms, of qs]
  have u: "run s (Mount p # map Update qs @ [Unmount]) = unmount (run s (Mount p # map Update qs))"
    using a unmount_after [of s "Mount p # map Update qs"] by simp
  have m: "committed (run s [Mount p]) = Some (elem (Html5QrcodePlugin p))"
    using assms by (simp add: run_def mount_fail)
  have w: "world (run s (Mount p # map Update qs @ [Unmount])) = world s"
    unfolding u using a by (simp add: unmount_eq)
  then have e: "since s (run s (Mount p # map Update qs @ [Unmount])) = []"
    by (rule since_same)
  have r: "uncaught (run s (Mount p # map Update qs @ [Unmount])) =
           uncaught (run s (Mount p # map Update qs))"
      "committed (run s (Mount p # map Update qs @ [Unmount])) = None"
      "destroy (run s (Mount p # map Update qs @ [Unmount])) = None"
    unfolding u using a by (simp_all add: unmount_eq)
  show ?thesis
    using a m w e r by simp
qed

theorem failed_activation_no_teardown_witness:
  "committed (fresh_host (\<lambda>h. Rejected JNull)) = None \<and>
   \<not> truthy (qrCodeSuccessCallback (destructure [''className'' \<mapsto> JStr ''scanner''])) \<and>
   trace (world (run (fresh_host (\<lambda>h. Rejected JNull))
      [Mount [''className'' \<mapsto> JStr ''scanner''], Unmount])) = [] \<and>
   uncaught (run (fresh_host (\<lambda>h. Rejected JNull))
      [Mount [''className'' \<mapsto> JStr ''scanner''], Unmount]) =
     [JStr ''qrCodeSuccessCallback is required callback.'']"
proof -
  let ?s = "fresh_host (\<lambda>h. Rejected JNull)"
  let ?p = "[''className'' \<mapsto> JStr ''scanner'']"
  have h: "committed ?s = None"
    by (simp add: fresh_host_def)
  have t: "\<not> truthy (qrCodeSuccessCallback (destructure ?p))"
    by (simp add: destructure_def pick_def)
  note r = failed_activation_no_teardown [of ?s ?p "[]", OF h t, simplified]
  from r have w: "world (run ?s [Mount ?p, Unmount]) = world ?s"
    by blast
  from r have u: "uncaught (run ?s [Mount ?p, Unmount]) =
      uncaught ?s @ [JStr ''qrCodeSuccessCallback is required callback.'']"
    by blast
  show ?thesis
    using h t w u by (simp add: fresh_host_def)
qed

end
